theory Spec2Isabelle
  imports Complex_Main "HOL-Library.AList"
begin

section \<open>Python strings\<close>

text \<open>
  Python strings are modelled as \<open>string\<close>. \<open>str.lower\<close> is modelled on the ASCII
  letters (every keyword the integration compares against is ASCII and none of them is the
  lower-casing of a non-ASCII code point); \<open>str.strip\<close> removes the ASCII white space
  characters.
\<close>

definition lower_char :: "char \<Rightarrow> char" where
  "lower_char c =
     (case map_of (zip ''ABCDEFGHIJKLMNOPQRSTUVWXYZ'' ''abcdefghijklmnopqrstuvwxyz'') c of
        Some d \<Rightarrow> d
      | None \<Rightarrow> c)"

definition py_lower :: "string \<Rightarrow> string" where
  "py_lower s = map lower_char s"

section \<open>climate.py: room mode to HVAC mode and preset\<close>

text \<open>\<open>HVACMode\<close> of the host framework, restricted to the members the integration uses.\<close>

datatype HVACMode = OFF | HEAT | AUTO

definition PRESET_AWAY :: string where "PRESET_AWAY = ''away''"
definition PRESET_HOME :: string where "PRESET_HOME = ''home''"
definition PRESET_HG :: string where "PRESET_HG = ''hg''"

text \<open>
  \<open>room_mode_to_hvac_and_preset(room_mode, home_mode)\<close>. Both arguments may be \<open>None\<close>
  at run time: \<open>room_mode or ""\<close> and \<open>if home_mode\<close> are the source's guards.
\<close>

definition or_empty :: "string option \<Rightarrow> string" where
  "or_empty s = (case s of None \<Rightarrow> [] | Some x \<Rightarrow> x)"

definition room_mode_to_hvac_and_preset ::
  "string option \<Rightarrow> string option \<Rightarrow> HVACMode \<times> string option" where
  "room_mode_to_hvac_and_preset room_mode home_mode =
     (let rm = py_lower (or_empty room_mode);
          hm = (if or_empty home_mode \<noteq> [] then Some (py_lower (or_empty home_mode)) else None)
      in if rm = ''off'' then (OFF, None)
         else if rm = ''manual'' then (HEAT, None)
         else if rm = ''away'' then (AUTO, Some PRESET_AWAY)
         else if rm = ''hg'' then (HEAT, Some PRESET_HG)
         else if rm = ''home'' then
           (if hm = Some ''hg'' then (HEAT, Some PRESET_HG)
            else if hm = Some ''away'' then (AUTO, Some PRESET_AWAY)
            else (AUTO, Some PRESET_HOME))
         else (AUTO, None))"

section \<open>JSON values as Python sees them\<close>

text \<open>
  The value space of \<open>json.loads\<close>: \<open>None\<close>, \<open>bool\<close>, \<open>int\<close>, \<open>float\<close>, \<open>str\<close>,
  \<open>list\<close> and \<open>dict\<close>. A dict is an association list in insertion order; \<open>dict.get\<close>
  is \<open>map_of\<close>.
\<close>

datatype json =
    JNull
  | JBool bool
  | JInt int
  | JFloat real
  | JStr string
  | JList "json list"
  | JDict "(string \<times> json) list"

text \<open>
  Built-ins of the Python runtime that the integration calls and whose code is not part of
  the repository are parameters of the model: \<open>repr_other\<close> is \<open>str\<close> on floats, lists
  and dicts, \<open>json_loads\<close> is \<open>json.loads\<close> on a string and \<open>parse_float\<close> is \<open>float\<close> on
  a string (\<open>None\<close> when they raise).
\<close>

record pyenv =
  repr_other :: "json \<Rightarrow> string"
  json_loads :: "string \<Rightarrow> json option"
  parse_float :: "string \<Rightarrow> real option"

definition is_dict :: "json \<Rightarrow> bool" where
  "is_dict v = (case v of JDict _ \<Rightarrow> True | _ \<Rightarrow> False)"

definition is_list :: "json \<Rightarrow> bool" where
  "is_list v = (case v of JList _ \<Rightarrow> True | _ \<Rightarrow> False)"

definition is_container :: "json \<Rightarrow> bool" where
  "is_container v = (is_dict v \<or> is_list v)"

text \<open>\<open>bool(v)\<close>.\<close>

definition py_truthy :: "json \<Rightarrow> bool" where
  "py_truthy v =
     (case v of
        JNull \<Rightarrow> False
      | JBool b \<Rightarrow> b
      | JInt i \<Rightarrow> i \<noteq> 0
      | JFloat r \<Rightarrow> r \<noteq> 0
      | JStr s \<Rightarrow> s \<noteq> []
      | JList xs \<Rightarrow> xs \<noteq> []
      | JDict kvs \<Rightarrow> kvs \<noteq> [])"

text \<open>\<open>a or b\<close>.\<close>

definition py_or :: "json \<Rightarrow> json \<Rightarrow> json" where
  "py_or a b = (if py_truthy a then a else b)"

text \<open>\<open>d.get(k)\<close> and \<open>d.get(k, default)\<close> on a dict.\<close>

definition dget :: "(string \<times> json) list \<Rightarrow> string \<Rightarrow> json" where
  "dget kvs k = (case map_of kvs k of Some v \<Rightarrow> v | None \<Rightarrow> JNull)"

definition dget_default :: "(string \<times> json) list \<Rightarrow> string \<Rightarrow> json \<Rightarrow> json" where
  "dget_default kvs k d = (case map_of kvs k of Some v \<Rightarrow> v | None \<Rightarrow> d)"

text \<open>\<open>isinstance(v, (int, float))\<close>: \<open>bool\<close> is a subclass of \<open>int\<close>.\<close>

definition is_number :: "json \<Rightarrow> bool" where
  "is_number v = (case v of JInt _ \<Rightarrow> True | JFloat _ \<Rightarrow> True | JBool _ \<Rightarrow> True | _ \<Rightarrow> False)"

text \<open>\<open>float(v)\<close> on a value that passed \<open>is_number\<close>.\<close>

definition py_float :: "json \<Rightarrow> real" where
  "py_float v =
     (case v of JInt i \<Rightarrow> of_int i | JFloat r \<Rightarrow> r | JBool b \<Rightarrow> (if b then 1 else 0) | _ \<Rightarrow> 0)"

fun str_nat :: "nat \<Rightarrow> string" where
  "str_nat n =
     (if n < 10 then [''0123456789'' ! n]
      else str_nat (n div 10) @ [''0123456789'' ! (n mod 10)])"

declare str_nat.simps [simp del]

definition str_int :: "int \<Rightarrow> string" where
  "str_int i = (if i < 0 then CHR ''-'' # str_nat (nat (- i)) else str_nat (nat i))"

text \<open>\<open>str(v)\<close>.\<close>

definition py_str :: "pyenv \<Rightarrow> json \<Rightarrow> string" where
  "py_str env v =
     (case v of
        JNull \<Rightarrow> ''None''
      | JBool b \<Rightarrow> (if b then ''True'' else ''False'')
      | JInt i \<Rightarrow> str_int i
      | JStr s \<Rightarrow> s
      | _ \<Rightarrow> repr_other env v)"

definition is_space :: "char \<Rightarrow> bool" where
  "is_space c =
     (c \<in> set [CHR '' '', CHR 0x09, CHR 0x0A, CHR 0x0B, CHR 0x0C, CHR 0x0D,
                CHR 0x1C, CHR 0x1D, CHR 0x1E, CHR 0x1F])"

definition py_strip :: "string \<Rightarrow> string" where
  "py_strip s = rev (dropWhile is_space (rev (dropWhile is_space s)))"

section \<open>Exceptions\<close>

text \<open>
  The exception classes that can leave the modelled code. \<open>IntuisApiError\<close> and
  \<open>UpdateFailed\<close> are raised by the integration itself (their message texts are not
  modelled); the others are raised by the runtime or the HTTP library.
\<close>

datatype exn =
    IntuisApiError
  | UpdateFailed
  | AttributeError
  | TypeError
  | KeyError
  | ClientError
  | DecodeError

section \<open>api.py: locating the home object\<close>

definition hints :: "(string \<times> int) list" where
  "hints =
     [(''rooms'', 4), (''modules'', 3), (''therm_schedules'', 3), (''schedules'', 3),
      (''modules_bridged'', 2), (''capabilities'', 2), (''timezone'', 1), (''city'', 1),
      (''name'', 1)]"

text \<open>One pass of the loop of \<open>_score_candidate\<close>.\<close>

definition hint_points :: "(string \<times> json) list \<Rightarrow> string \<times> int \<Rightarrow> int" where
  "hint_points obj kw =
     (case map_of obj (fst kw) of
        None \<Rightarrow> 0
      | Some v \<Rightarrow>
          if is_container v then (if py_truthy v then snd kw else 0)
          else if v \<noteq> JNull \<and> v \<noteq> JStr [] then snd kw
          else 0)"

definition score_candidate :: "(string \<times> json) list \<Rightarrow> int" where
  "score_candidate obj =
     sum_list (map (hint_points obj) hints)
     + (case map_of obj ''rooms'' of Some (JList _) \<Rightarrow> 5 | _ \<Rightarrow> 0)"

text \<open>
  \<open>current.get("id") or current.get("_id") or current.get("home_id")\<close>, and the test
  the breadth-first search and \<open>_looks_like_home\<close> both apply to it.
\<close>

definition id_candidate :: "(string \<times> json) list \<Rightarrow> json" where
  "id_candidate obj = py_or (py_or (dget obj ''id'') (dget obj ''_id'')) (dget obj ''home_id'')"

definition has_home_id :: "pyenv \<Rightarrow> (string \<times> json) list \<Rightarrow> bool" where
  "has_home_id env obj =
     (id_candidate obj \<noteq> JNull \<and> py_strip (py_str env (id_candidate obj)) \<noteq> [])"

text \<open>
  Object identity. The search keeps \<open>id(current)\<close> of every container it has expanded.
  In a tree built by \<open>json.loads\<close> no container is shared, so a container is identified
  by its path from the root: the positions of the entries followed.
\<close>

type_synonym path = "nat list"

definition children :: "json \<Rightarrow> json list" where
  "children v = (case v of JList xs \<Rightarrow> xs | JDict kvs \<Rightarrow> map snd kvs | _ \<Rightarrow> [])"

text \<open>The containers among the entries of a container, each with its identity.\<close>

definition container_children :: "path \<Rightarrow> json list \<Rightarrow> (path \<times> json) list" where
  "container_children p vs =
     map (\<lambda>iv. (p @ [fst iv], snd iv)) (filter (\<lambda>iv. is_container (snd iv)) (enumerate 0 vs))"

text \<open>\<open>current.get(key)\<close> with the identity of the value, when it is a container.\<close>

definition wrapper_child :: "path \<Rightarrow> (string \<times> json) list \<Rightarrow> string \<Rightarrow> (path \<times> json) option" where
  "wrapper_child p obj key =
     (case find (\<lambda>ikv. fst (snd ikv) = key) (enumerate 0 obj) of
        None \<Rightarrow> None
      | Some ikv \<Rightarrow>
          if is_container (snd (snd ikv)) then Some (p @ [fst ikv], snd (snd ikv)) else None)"

definition wrapper_keys :: "string list" where
  "wrapper_keys = [''home'', ''body'', ''data'', ''result'', ''homes'']"

text \<open>\<open>queue.appendleft\<close> for each wrapper key in turn.\<close>

definition push_wrappers ::
  "path \<Rightarrow> (string \<times> json) list \<Rightarrow> (path \<times> json) list \<Rightarrow> (path \<times> json) list" where
  "push_wrappers p obj q =
     fold (\<lambda>key q. case wrapper_child p obj key of Some c \<Rightarrow> c # q | None \<Rightarrow> q) wrapper_keys q"

record search =
  queue :: "(path \<times> json) list"
  seen :: "path set"
  best :: "(string \<times> json) list option"
  best_score :: int

text \<open>The candidate test of the loop body: updates \<open>best\<close> and \<open>best_score\<close>.\<close>

definition note_candidate :: "pyenv \<Rightarrow> (string \<times> json) list \<Rightarrow> search \<Rightarrow> search" where
  "note_candidate env current st =
     (if has_home_id env current then
        (let score = score_candidate current;
             better = (score > best_score st
                       \<or> (case best st of
                             None \<Rightarrow> False
                           | Some b \<Rightarrow> score = best_score st
                               \<and> map_of current ''rooms'' \<noteq> None \<and> map_of b ''rooms'' = None))
         in if better then st\<lparr>best := Some current, best_score := score\<rparr> else st)
      else st)"

text \<open>One iteration of the \<open>while queue\<close> loop, after \<open>popleft\<close> gave \<open>(p, current)\<close>.\<close>

definition visit :: "pyenv \<Rightarrow> path \<Rightarrow> json \<Rightarrow> search \<Rightarrow> search" where
  "visit env p current st =
     (if is_container current \<and> p \<in> seen st then st
      else
        (let st1 = (if is_container current then st\<lparr>seen := insert p (seen st)\<rparr> else st)
         in case current of
              JDict obj \<Rightarrow>
                (let st2 = note_candidate env obj st1;
                     q1 = push_wrappers p obj (queue st2)
                 in st2\<lparr>queue := q1 @ container_children p (map snd obj)\<rparr>)
            | JList items \<Rightarrow> st1\<lparr>queue := queue st1 @ container_children p items\<rparr>
            | _ \<Rightarrow> st1))"

fun weight :: "json \<Rightarrow> nat" where
  "weight (JList xs) = Suc (6 * sum_list (map weight xs))"
| "weight (JDict kvs) = Suc (6 * sum_list (map (\<lambda>kv. weight (snd kv)) kvs))"
| "weight v = 1"

definition qweight :: "(path \<times> json) list \<Rightarrow> nat" where
  "qweight q = sum_list (map (\<lambda>pv. weight (snd pv)) q)"

lemma weight_children: "weight v = (if is_container v then Suc (6 * sum_list (map weight (children v))) else 1)"
  by (cases v) (simp_all add: is_container_def is_dict_def is_list_def children_def comp_def)

lemma qweight_container_children_aux:
  "sum_list (map (\<lambda>pv. weight (snd pv)) (map (\<lambda>iv. (p @ [fst iv], snd iv)) (filter (\<lambda>iv. is_container (snd iv)) (enumerate n vs))))
     \<le> sum_list (map weight vs)"
  by (induction vs arbitrary: n) (auto simp: comp_def trans_le_add2)

lemma qweight_container_children: "qweight (container_children p vs) \<le> sum_list (map weight vs)"
  unfolding qweight_def container_children_def by (rule qweight_container_children_aux)

lemma find_enumerate_weight:
  "find P (enumerate n obj) = Some ikv \<Longrightarrow> weight (snd (snd ikv)) \<le> sum_list (map weight (map snd obj))"
  by (induction obj arbitrary: n) (auto split: if_splits simp: trans_le_add2)

lemma wrapper_child_weight:
  "wrapper_child p obj key = Some c \<Longrightarrow> weight (snd c) \<le> sum_list (map weight (map snd obj))"
  by (auto simp: wrapper_child_def split: option.splits if_splits dest: find_enumerate_weight)

lemma push_one_weight:
  "qweight (case wrapper_child p obj key of Some c \<Rightarrow> c # q | None \<Rightarrow> q)
     \<le> qweight q + sum_list (map weight (map snd obj))"
  by (auto simp: qweight_def split: option.splits dest: wrapper_child_weight)

lemma push_wrappers_weight:
  "qweight (push_wrappers p obj q) \<le> qweight q + 5 * sum_list (map weight (map snd obj))"
proof -
  let ?f = "\<lambda>key q. case wrapper_child p obj key of Some c \<Rightarrow> c # q | None \<Rightarrow> q"
  let ?S = "sum_list (map weight (map snd obj))"
  have step: "qweight (?f key q') \<le> qweight q' + ?S" for key q'
    by (rule push_one_weight)
  have "qweight (fold ?f ks q) \<le> qweight q + length ks * ?S" for ks
  proof (induction ks arbitrary: q)
    case Nil
    show ?case by simp
  next
    case (Cons k ks)
    have "qweight (fold ?f ks (?f k q)) \<le> qweight (?f k q) + length ks * ?S"
      by (rule Cons.IH)
    also have "\<dots> \<le> qweight q + ?S + length ks * ?S"
      using push_one_weight [where p = p and obj = obj and key = k and q = q] by simp
    finally show ?case by simp
  qed
  from this [of wrapper_keys] show ?thesis
    by (simp add: push_wrappers_def wrapper_keys_def)
qed

lemma queue_note_candidate [simp]: "queue (note_candidate env obj st) = queue st"
  by (simp add: note_candidate_def Let_def)

lemma qweight_append [simp]: "qweight (a @ b) = qweight a + qweight b"
  by (simp add: qweight_def)

lemma visit_weight: "qweight (queue (visit env p current st)) < weight current + qweight (queue st)"
proof (cases current)
  case (JDict obj)
  have "qweight (push_wrappers p obj (queue st)) + qweight (container_children p (map snd obj))
        \<le> qweight (queue st) + 6 * sum_list (map weight (map snd obj))"
    using push_wrappers_weight [of p obj "queue st"] qweight_container_children [of p "map snd obj"]
    by simp
  then show ?thesis
    using JDict by (simp add: visit_def Let_def is_container_def is_dict_def comp_def)
next
  case (JList items)
  then show ?thesis
    using qweight_container_children [of p items]
    by (simp add: visit_def Let_def is_container_def is_dict_def is_list_def)
qed (simp_all add: visit_def Let_def is_container_def is_dict_def is_list_def)

function bfs :: "pyenv \<Rightarrow> search \<Rightarrow> (string \<times> json) list option" where
  "bfs env st =
     (case queue st of
        [] \<Rightarrow> best st
      | pv # q \<Rightarrow> bfs env (visit env (fst pv) (snd pv) (st\<lparr>queue := q\<rparr>)))"
  by pat_completeness auto
termination
proof (relation "measure (\<lambda>(env, st). qweight (queue st))")
  show "wf (measure (\<lambda>(env, st). qweight (queue st)))"
    by simp
next
  fix env :: pyenv and st :: search and pv q
  assume "queue st = pv # q"
  then show "((env, visit env (fst pv) (snd pv) (st\<lparr>queue := q\<rparr>)), (env, st))
               \<in> measure (\<lambda>(env, st). qweight (queue st))"
    using visit_weight [of env "fst pv" "snd pv" "st\<lparr>queue := q\<rparr>"]
    by (simp add: qweight_def)
qed

declare bfs.simps [simp del]

definition looks_like_home :: "pyenv \<Rightarrow> (string \<times> json) list \<Rightarrow> bool" where
  "looks_like_home env obj =
     (if \<not> (\<exists>key \<in> set [''rooms'', ''modules'', ''capabilities'', ''timezone'', ''city''].
               map_of obj key \<noteq> None)
      then False
      else if id_candidate obj = JNull then False
      else py_strip (py_str env (id_candidate obj)) \<noteq> [])"

text \<open>
  \<open>_search_home\<close>. The loops over the wrapper keys, over the items of \<open>homes\<close> and over
  all values run one after the other, each returning the first truthy result: they are one
  loop over the concatenation of the three sequences.
\<close>

definition search_order :: "(string \<times> json) list \<Rightarrow> json list" where
  "search_order obj =
     concat (map (\<lambda>key. case map_of obj key of Some v \<Rightarrow> [v] | None \<Rightarrow> [])
               [''home'', ''data'', ''result'', ''body''])
     @ (case dget obj ''homes'' of JList items \<Rightarrow> items | _ \<Rightarrow> [])
     @ map snd obj"

function search_home :: "pyenv \<Rightarrow> json \<Rightarrow> nat \<Rightarrow> json option"
  and search_items :: "pyenv \<Rightarrow> json list \<Rightarrow> nat \<Rightarrow> json option" where
  "search_home env obj depth =
     (if depth > 32 then None
      else case obj of
             JDict kvs \<Rightarrow>
               if looks_like_home env kvs then Some obj
               else search_items env (search_order kvs) (depth + 1)
           | JList items \<Rightarrow> search_items env items (depth + 1)
           | _ \<Rightarrow> None)"
| "search_items env [] depth = None"
| "search_items env (x # xs) depth =
     (case search_home env x depth of
        Some found \<Rightarrow> if py_truthy found then Some found else search_items env xs depth
      | None \<Rightarrow> search_items env xs depth)"
  by pat_completeness auto
termination
  by (relation "inv_image (less_than <*lex*> less_than)
        (\<lambda>x. case x of
               Inl (env, obj, depth) \<Rightarrow> (33 - depth, 0)
             | Inr (env, items, depth) \<Rightarrow> (33 - depth, Suc (length items)))")
     auto

declare search_home.simps [simp del]

definition extract_home_from_homesdata :: "pyenv \<Rightarrow> json \<Rightarrow> exn + json" where
  "extract_home_from_homesdata env payload =
     (case bfs env \<lparr>queue = [([], payload)], seen = {}, best = None, best_score = - 1\<rparr> of
        Some b \<Rightarrow> Inr (JDict b)
      | None \<Rightarrow>
          (case search_home env payload 0 of
             Some home \<Rightarrow> Inr home
           | None \<Rightarrow> Inl IntuisApiError))"

section \<open>api.py: the HTTP client and its token state\<close>

text \<open>
  The outside world is a script: the outcomes that successive calls of
  \<open>session.request\<close> will yield, each with the time that passes until it is there. An
  outcome is an exception of the HTTP library or a response; a response gives its
  status and what \<open>resp.text()\<close> and \<open>resp.json(content_type=None)\<close> yield. An exhausted
  script is an unreachable server. Every request made is recorded in \<open>sent\<close>.
\<close>

record request =
  req_method :: string
  req_url :: string
  req_headers :: "(string \<times> string) list"
  req_json :: "json option"
  req_form :: "(string \<times> string) list option"

record response =
  resp_status :: int
  resp_text :: "exn + string"
  resp_json :: "exn + json"

record config =
  client_id :: string
  client_secret :: string
  scope :: string
  user_prefix :: string
  username :: string
  password :: string

text \<open>
  \<open>_AuthState\<close>, \<open>IntuisApi._home_cache\<close> (\<open>JNull\<close> is \<open>None\<close>), the clock read by
  \<open>time.time()\<close>, and the world.
\<close>

record state =
  access_token :: json
  refresh_token :: json
  expires_at :: "real option"
  home_cache :: json
  clock :: real
  script :: "(real \<times> (exn + response)) list"
  sent :: "request list"

definition BASE_HOST :: string where
  "BASE_HOST = ''https://app.muller-intuitiv.net''"

definition form_urlencoded :: string where
  "form_urlencoded = ''application/x-www-form-urlencoded''"

definition auth_headers :: "pyenv \<Rightarrow> state \<Rightarrow> (string \<times> string) list" where
  "auth_headers env s =
     (if \<not> py_truthy (access_token s) then []
      else [(''Authorization'', ''Bearer '' @ py_str env (access_token s))])"

text \<open>The \<open>FormData\<close> built from \<open>form\<close>: \<open>None\<close> values are skipped, the others go through \<open>str\<close>.\<close>

definition form_fields :: "pyenv \<Rightarrow> (string \<times> json) list \<Rightarrow> (string \<times> string) list" where
  "form_fields env form =
     map (\<lambda>kv. (fst kv, py_str env (snd kv))) (filter (\<lambda>kv. snd kv \<noteq> JNull) form)"

definition session_request :: "request \<Rightarrow> state \<Rightarrow> (exn + response) \<times> state" where
  "session_request rq s =
     (case script s of
        [] \<Rightarrow> (Inl ClientError, s\<lparr>sent := sent s @ [rq]\<rparr>)
      | out # rest \<Rightarrow>
          (snd out, s\<lparr>clock := clock s + fst out, script := rest, sent := sent s @ [rq]\<rparr>))"

text \<open>The headers and the form data \<open>_request_json\<close> prepares.\<close>

definition build_request ::
  "pyenv \<Rightarrow> string \<Rightarrow> string \<Rightarrow> json option \<Rightarrow> (string \<times> json) list option \<Rightarrow> string option
     \<Rightarrow> bool \<Rightarrow> state \<Rightarrow> request" where
  "build_request env method url body form content_type auth s =
     (let headers0 = (if auth then auth_headers env s else []);
          headers = (case content_type of
                       None \<Rightarrow> headers0
                     | Some ct \<Rightarrow> if ct \<noteq> [] then AList.update ''Content-Type'' ct headers0
                                 else headers0)
      in \<lparr>req_method = method, req_url = url, req_headers = headers, req_json = body,
          req_form = map_option (form_fields env) form\<rparr>)"

definition request_json ::
  "pyenv \<Rightarrow> string \<Rightarrow> string \<Rightarrow> json option \<Rightarrow> (string \<times> json) list option \<Rightarrow> string option
     \<Rightarrow> bool \<Rightarrow> state \<Rightarrow> (exn + json) \<times> state" where
  "request_json env method url body form content_type auth s =
     (case session_request (build_request env method url body form content_type auth s) s of
        (Inl e, s1) \<Rightarrow> (Inl e, s1)
      | (Inr resp, s1) \<Rightarrow>
          if resp_status resp \<ge> 400 then (Inl IntuisApiError, s1)
          else (case resp_json resp of
                  Inr v \<Rightarrow> (Inr v, s1)
                | Inl e \<Rightarrow>
                    (case resp_text resp of
                       Inr text \<Rightarrow> (Inl IntuisApiError, s1)
                     | Inl e' \<Rightarrow> (Inl e', s1))))"

definition token_expiring :: "state \<Rightarrow> bool" where
  "token_expiring s =
     (case expires_at s of
        None \<Rightarrow> True
      | Some e \<Rightarrow> if e = 0 then True else clock s \<ge> e - 60)"

text \<open>\<open>_store_tokens\<close>: \<open>data.get\<close> raises \<open>AttributeError\<close> when \<open>data\<close> is not a dict.\<close>

definition store_tokens :: "json \<Rightarrow> state \<Rightarrow> (exn + unit) \<times> state" where
  "store_tokens data s =
     (case data of
        JDict kvs \<Rightarrow>
          (let expires_in = dget kvs ''expires_in''
           in (Inr (),
               s\<lparr>access_token := dget kvs ''access_token'',
                 refresh_token := dget_default kvs ''refresh_token'' (refresh_token s),
                 expires_at := Some (if is_number expires_in then clock s + py_float expires_in
                                     else clock s + 3600)\<rparr>))
      | _ \<Rightarrow> (Inl AttributeError, s))"

definition sleep :: "real \<Rightarrow> state \<Rightarrow> state" where
  "sleep d s = s\<lparr>clock := clock s + d\<rparr>"

definition login_payload :: "config \<Rightarrow> (string \<times> json) list" where
  "login_payload cfg =
     [(''client_id'', JStr (client_id cfg)), (''user_prefix'', JStr (user_prefix cfg)),
      (''client_secret'', JStr (client_secret cfg)), (''grant_type'', JStr ''password''),
      (''scope'', JStr (scope cfg)), (''password'', JStr (password cfg)),
      (''username'', JStr (username cfg))]"

text \<open>The body of \<open>login\<close>: the loop \<open>for attempt in range(1, 4)\<close> over the attempts left.\<close>

fun login_attempts :: "pyenv \<Rightarrow> config \<Rightarrow> nat list \<Rightarrow> state \<Rightarrow> (exn + json) \<times> state" where
  "login_attempts env cfg [] s = (Inl IntuisApiError, s)"
| "login_attempts env cfg (attempt # rest) s =
     (case request_json env ''POST'' (BASE_HOST @ ''/oauth2/token'') None
             (Some (login_payload cfg)) (Some form_urlencoded) False s of
        (Inr data, s1) \<Rightarrow>
          (case store_tokens data s1 of
             (Inr u, s2) \<Rightarrow> (Inr data, s2)
           | (Inl e, s2) \<Rightarrow>
               if e = IntuisApiError
               then login_attempts env cfg rest (sleep (1.5 * real attempt) s2)
               else (Inl e, s2))
      | (Inl e, s1) \<Rightarrow>
          if e = IntuisApiError
          then login_attempts env cfg rest (sleep (1.5 * real attempt) s1)
          else (Inl e, s1))"

definition login :: "pyenv \<Rightarrow> config \<Rightarrow> state \<Rightarrow> (exn + json) \<times> state" where
  "login env cfg s = login_attempts env cfg [1, 2, 3] s"

definition refresh_payload :: "config \<Rightarrow> state \<Rightarrow> (string \<times> json) list" where
  "refresh_payload cfg s =
     [(''client_id'', JStr (client_id cfg)), (''user_prefix'', JStr (user_prefix cfg)),
      (''client_secret'', JStr (client_secret cfg)), (''grant_type'', JStr ''refresh_token''),
      (''refresh_token'', refresh_token s)]"

definition refresh :: "pyenv \<Rightarrow> config \<Rightarrow> state \<Rightarrow> (exn + json) \<times> state" where
  "refresh env cfg s =
     (if \<not> py_truthy (refresh_token s) then (Inl IntuisApiError, s)
      else case request_json env ''POST'' (BASE_HOST @ ''/oauth2/token'') None
                  (Some (refresh_payload cfg s)) (Some form_urlencoded) False s of
             (Inl e, s1) \<Rightarrow> (Inl e, s1)
           | (Inr data, s1) \<Rightarrow>
               (case store_tokens data s1 of
                  (Inl e, s2) \<Rightarrow> (Inl e, s2)
                | (Inr u, s2) \<Rightarrow> (Inr data, s2)))"

definition ensure_token :: "pyenv \<Rightarrow> config \<Rightarrow> state \<Rightarrow> (exn + unit) \<times> state" where
  "ensure_token env cfg s =
     (if py_truthy (access_token s) \<and> \<not> token_expiring s then (Inr (), s)
      else if py_truthy (refresh_token s) then
        (case refresh env cfg s of
           (Inr data, s1) \<Rightarrow> (Inr (), s1)
         | (Inl e, s1) \<Rightarrow>
             if e = IntuisApiError
             then (case login env cfg s1 of
                     (Inl e', s2) \<Rightarrow> (Inl e', s2)
                   | (Inr data, s2) \<Rightarrow> (Inr (), s2))
             else (Inl e, s1))
      else (case login env cfg s of
              (Inl e', s2) \<Rightarrow> (Inl e', s2)
            | (Inr data, s2) \<Rightarrow> (Inr (), s2)))"

text \<open>An authenticated call: \<open>await self.ensure_token()\<close>, then the request.\<close>

definition authed_request ::
  "pyenv \<Rightarrow> config \<Rightarrow> string \<Rightarrow> string \<Rightarrow> json option \<Rightarrow> (string \<times> json) list option
     \<Rightarrow> string option \<Rightarrow> state \<Rightarrow> (exn + json) \<times> state" where
  "authed_request env cfg method url body form content_type s =
     (case ensure_token env cfg s of
        (Inl e, s1) \<Rightarrow> (Inl e, s1)
      | (Inr u, s1) \<Rightarrow> request_json env method url body form content_type True s1)"

definition get_homesdata :: "pyenv \<Rightarrow> config \<Rightarrow> state \<Rightarrow> (exn + json) \<times> state" where
  "get_homesdata env cfg s =
     (case authed_request env cfg ''GET'' (BASE_HOST @ ''/api/homesdata'') None None None s of
        (Inl e, s1) \<Rightarrow> (Inl e, s1)
      | (Inr raw0, s1) \<Rightarrow>
          (case (case raw0 of
                   JStr text \<Rightarrow> (case json_loads env text of
                                   None \<Rightarrow> Inl IntuisApiError
                                 | Some v \<Rightarrow> Inr v)
                 | _ \<Rightarrow> Inr raw0) of
             Inl e \<Rightarrow> (Inl e, s1)
           | Inr raw \<Rightarrow> if \<not> is_container raw then (Inl IntuisApiError, s1) else (Inr raw, s1)))"

definition post_homestatus :: "pyenv \<Rightarrow> config \<Rightarrow> string \<Rightarrow> state \<Rightarrow> (exn + json) \<times> state" where
  "post_homestatus env cfg home_id s =
     authed_request env cfg ''POST'' (BASE_HOST @ ''/syncapi/v1/homestatus'') None
       (Some [(''home_id'', JStr home_id)]) (Some form_urlencoded) s"

definition post_getconfigs :: "pyenv \<Rightarrow> config \<Rightarrow> state \<Rightarrow> (exn + json) \<times> state" where
  "post_getconfigs env cfg s =
     authed_request env cfg ''POST'' (BASE_HOST @ ''/syncapi/v1/getconfigs'') None
       (Some []) (Some form_urlencoded) s"

definition post_gethomemeasure ::
  "pyenv \<Rightarrow> config \<Rightarrow> string \<Rightarrow> string \<Rightarrow> int \<Rightarrow> int \<Rightarrow> string option \<Rightarrow> state
     \<Rightarrow> (exn + json) \<times> state" where
  "post_gethomemeasure env cfg home_id scale_arg offset limit rtype s =
     (let form = [(''home_id'', JStr home_id), (''scale'', JStr scale_arg),
                  (''offset'', JInt offset), (''limit'', JInt limit)];
          form' = (case rtype of
                     None \<Rightarrow> form
                   | Some t \<Rightarrow> if t \<noteq> [] then form @ [(''type'', JStr t)] else form)
      in authed_request env cfg ''POST'' (BASE_HOST @ ''/api/gethomemeasure'') None
           (Some form') (Some form_urlencoded) s)"

text \<open>
  \<open>temp\<close> and \<open>endtime\<close> are optional numbers: the source passes them on only when
  \<open>isinstance(_, (int, float))\<close>, as \<open>float(temp)\<close> and \<open>int(endtime)\<close>.
\<close>

definition opt_field :: "string \<Rightarrow> json option \<Rightarrow> (json \<Rightarrow> json) \<Rightarrow> (string \<times> json) list" where
  "opt_field k v conv =
     (case v of None \<Rightarrow> [] | Some x \<Rightarrow> if is_number x then [(k, conv x)] else [])"

definition to_float :: "json \<Rightarrow> json" where
  "to_float x = JFloat (py_float x)"

definition to_int :: "json \<Rightarrow> json" where
  "to_int x = (case x of JFloat r \<Rightarrow> JInt (if r < 0 then \<lceil>r\<rceil> else \<lfloor>r\<rfloor>) | _ \<Rightarrow> JInt \<lfloor>py_float x\<rfloor>)"

definition post_setroomthermpoint ::
  "pyenv \<Rightarrow> config \<Rightarrow> string \<Rightarrow> string \<Rightarrow> string \<Rightarrow> json option \<Rightarrow> json option \<Rightarrow> state
     \<Rightarrow> (exn + json) \<times> state" where
  "post_setroomthermpoint env cfg home_id room_id mode temp endtime s =
     authed_request env cfg ''POST'' (BASE_HOST @ ''/api/setroomthermpoint'') None
       (Some ([(''home_id'', JStr home_id), (''room_id'', JStr room_id), (''mode'', JStr mode)]
              @ opt_field ''temp'' temp to_float @ opt_field ''endtime'' endtime to_int))
       (Some form_urlencoded) s"

definition post_setstate_rooms ::
  "pyenv \<Rightarrow> config \<Rightarrow> string \<Rightarrow> string \<Rightarrow> string \<Rightarrow> json option \<Rightarrow> json option \<Rightarrow> state
     \<Rightarrow> (exn + json) \<times> state" where
  "post_setstate_rooms env cfg home_id room_id mode temp endtime s =
     (let room = [(''id'', JStr room_id), (''therm_setpoint_mode'', JStr mode)]
                 @ opt_field ''therm_setpoint_temperature'' temp to_float
                 @ opt_field ''therm_setpoint_end_time'' endtime to_int;
          body = JDict [(''home'', JDict [(''id'', JStr home_id), (''rooms'', JList [JDict room])])]
      in authed_request env cfg ''POST'' (BASE_HOST @ ''/syncapi/v1/setstate'') (Some body)
           None None s)"

definition post_switchhomeschedule ::
  "pyenv \<Rightarrow> config \<Rightarrow> string \<Rightarrow> string \<Rightarrow> state \<Rightarrow> (exn + json) \<times> state" where
  "post_switchhomeschedule env cfg home_id schedule_id s =
     authed_request env cfg ''POST'' (BASE_HOST @ ''/api/switchhomeschedule'') None
       (Some [(''home_id'', JStr home_id), (''schedule_id'', JStr schedule_id)])
       (Some form_urlencoded) s"

section \<open>api.py: the high-level API\<close>

definition async_authenticate :: "pyenv \<Rightarrow> config \<Rightarrow> state \<Rightarrow> (exn + unit) \<times> state" where
  "async_authenticate env cfg s = ensure_token env cfg s"

text \<open>\<open>str(obj.get("id") or obj.get("_id") or obj.get("home_id") or "").strip()\<close>.\<close>

definition hid_of :: "pyenv \<Rightarrow> (string \<times> json) list \<Rightarrow> string" where
  "hid_of env obj = py_strip (py_str env (py_or (id_candidate obj) (JStr [])))"

definition get_home :: "pyenv \<Rightarrow> config \<Rightarrow> state \<Rightarrow> (exn + json) \<times> state" where
  "get_home env cfg s =
     (if (case home_cache s of
            JDict cached \<Rightarrow> py_strip (py_str env (dget_default cached ''id'' (JStr []))) \<noteq> []
          | _ \<Rightarrow> False)
      then (Inr (home_cache s), s)
      else case get_homesdata env cfg s of
             (Inl e, s1) \<Rightarrow> (Inl e, s1)
           | (Inr payload, s1) \<Rightarrow>
               (case extract_home_from_homesdata env payload of
                  Inl e \<Rightarrow> (Inl e, s1)
                | Inr home \<Rightarrow>
                    (case home of
                       JDict kvs \<Rightarrow>
                         (let hid = hid_of env kvs
                          in if hid = [] then (Inl IntuisApiError, s1)
                             else (let normalized = JDict (AList.update ''id'' (JStr hid) kvs)
                                   in (Inr normalized, s1\<lparr>home_cache := normalized\<rparr>)))
                     | _ \<Rightarrow> (Inl IntuisApiError, s1))))"

definition get_home_id :: "pyenv \<Rightarrow> config \<Rightarrow> state \<Rightarrow> (exn + string) \<times> state" where
  "get_home_id env cfg s =
     (case (if py_truthy (home_cache s)
            then (case home_cache s of
                    JDict cached \<Rightarrow> Inr (hid_of env cached)
                  | _ \<Rightarrow> Inl AttributeError)
            else Inr []) of
        Inl e \<Rightarrow> (Inl e, s)
      | Inr hid0 \<Rightarrow>
          if hid0 \<noteq> [] then (Inr hid0, s)
          else (case get_home env cfg s of
                  (Inl e, s1) \<Rightarrow> (Inl e, s1)
                | (Inr home, s1) \<Rightarrow>
                    (case home of
                       JDict kvs \<Rightarrow>
                         (let hid = hid_of env kvs
                          in if hid = [] then (Inl IntuisApiError, s1) else (Inr hid, s1))
                     | _ \<Rightarrow> (Inl AttributeError, s1))))"

text \<open>\<open>hid = home_id or await self.get_home_id()\<close>.\<close>

definition home_id_or :: "pyenv \<Rightarrow> config \<Rightarrow> string option \<Rightarrow> state \<Rightarrow> (exn + string) \<times> state" where
  "home_id_or env cfg home_id s =
     (case home_id of
        None \<Rightarrow> get_home_id env cfg s
      | Some h \<Rightarrow> if h \<noteq> [] then (Inr h, s) else get_home_id env cfg s)"

definition homestatus :: "pyenv \<Rightarrow> config \<Rightarrow> string option \<Rightarrow> state \<Rightarrow> (exn + json) \<times> state" where
  "homestatus env cfg home_id s =
     (case home_id_or env cfg home_id s of
        (Inl e, s1) \<Rightarrow> (Inl e, s1)
      | (Inr hid, s1) \<Rightarrow> post_homestatus env cfg hid s1)"

definition gethomemeasure ::
  "pyenv \<Rightarrow> config \<Rightarrow> string option \<Rightarrow> string \<Rightarrow> int \<Rightarrow> int \<Rightarrow> string option \<Rightarrow> state
     \<Rightarrow> (exn + json) \<times> state" where
  "gethomemeasure env cfg home_id scale_arg offset limit rtype s =
     (case home_id_or env cfg home_id s of
        (Inl e, s1) \<Rightarrow> (Inl e, s1)
      | (Inr hid, s1) \<Rightarrow> post_gethomemeasure env cfg hid scale_arg offset limit rtype s1)"

definition set_room_setpoint ::
  "pyenv \<Rightarrow> config \<Rightarrow> string \<Rightarrow> string \<Rightarrow> real \<Rightarrow> json option \<Rightarrow> state \<Rightarrow> (exn + json) \<times> state" where
  "set_room_setpoint env cfg home_id room_id temp duration s =
     (let endtime =
            (case duration of
               None \<Rightarrow> None
             | Some d \<Rightarrow>
                 if is_number d \<and> py_float d > 0
                 then Some (to_int (JFloat (clock s + py_float d * 60)))
                 else None)
      in post_setroomthermpoint env cfg home_id room_id ''manual'' (Some (JFloat temp)) endtime s)"

definition set_room_mode ::
  "pyenv \<Rightarrow> config \<Rightarrow> string \<Rightarrow> string \<Rightarrow> string \<Rightarrow> json option \<Rightarrow> json option \<Rightarrow> bool \<Rightarrow> state
     \<Rightarrow> (exn + json) \<times> state" where
  "set_room_mode env cfg home_id room_id mode temp endtime use_setstate s =
     (if use_setstate then post_setstate_rooms env cfg home_id room_id mode temp endtime s
      else post_setroomthermpoint env cfg home_id room_id mode temp endtime s)"

definition switch_home_schedule ::
  "pyenv \<Rightarrow> config \<Rightarrow> string \<Rightarrow> string \<Rightarrow> state \<Rightarrow> (exn + json) \<times> state" where
  "switch_home_schedule env cfg home_id schedule_id s =
     post_switchhomeschedule env cfg home_id schedule_id s"

section \<open>coordinator.py\<close>

text \<open>The \<open>try\<close> body of \<open>_async_update_data\<close>.\<close>

definition update_body :: "pyenv \<Rightarrow> config \<Rightarrow> state \<Rightarrow> (exn + json) \<times> state" where
  "update_body env cfg s =
     (case async_authenticate env cfg s of
        (Inl e, s1) \<Rightarrow> (Inl e, s1)
      | (Inr u, s1) \<Rightarrow>
     (case get_home_id env cfg s1 of
        (Inl e, s2) \<Rightarrow> (Inl e, s2)
      | (Inr home_id, s2) \<Rightarrow>
     (case homestatus env cfg (Some home_id) s2 of
        (Inl e, s3) \<Rightarrow> (Inl e, s3)
      | (Inr status, s3) \<Rightarrow>
     (case (case gethomemeasure env cfg (Some home_id) ''day'' 0 30 (Some ''energy'') s3 of
              (Inr m, s4) \<Rightarrow> (Inr m, s4)
            | (Inl e, s4) \<Rightarrow>
                if e = IntuisApiError
                then gethomemeasure env cfg (Some home_id) ''day'' 0 30 None s4
                else (Inl e, s4)) of
        (Inl e, s5) \<Rightarrow> (Inl e, s5)
      | (Inr measures', s5) \<Rightarrow>
          (Inr (JDict [(''home_id'', JStr home_id), (''status'', status),
                       (''measures'', measures')]), s5)))))"

text \<open>\<open>_async_update_data\<close>: every exception of the body surfaces as \<open>UpdateFailed\<close>.\<close>

definition async_update_data :: "pyenv \<Rightarrow> config \<Rightarrow> state \<Rightarrow> (exn + json) \<times> state" where
  "async_update_data env cfg s =
     (case update_body env cfg s of
        (Inl e, s1) \<Rightarrow> (Inl UpdateFailed, s1)
      | (Inr data, s1) \<Rightarrow> (Inr data, s1))"

section \<open>Operations on values of any type\<close>

text \<open>\<open>for x in v\<close>: the items iterated, or the \<open>TypeError\<close> of a value that is not iterable.\<close>

definition py_iter :: "json \<Rightarrow> exn + json list" where
  "py_iter v =
     (case v of
        JList xs \<Rightarrow> Inr xs
      | JDict kvs \<Rightarrow> Inr (map (\<lambda>kv. JStr (fst kv)) kvs)
      | JStr s \<Rightarrow> Inr (map (\<lambda>c. JStr [c]) s)
      | _ \<Rightarrow> Inl TypeError)"

text \<open>\<open>len(v)\<close>.\<close>

definition py_len :: "json \<Rightarrow> exn + int" where
  "py_len v =
     (case v of
        JList xs \<Rightarrow> Inr (int (length xs))
      | JDict kvs \<Rightarrow> Inr (int (length kvs))
      | JStr s \<Rightarrow> Inr (int (length s))
      | _ \<Rightarrow> Inl TypeError)"



section \<open>climate.py: the climate entity\<close>









text \<open>\<open>IntuisRoomClimate\<close>: the attributes set by \<open>__init__\<close>.\<close>

record climate =
  c_home_id :: string
  c_room_id :: string
  c_room_name :: json
  c_unique_id :: string
  c_preset_mode :: "string option"

definition IntuisRoomClimate :: "pyenv \<Rightarrow> json \<Rightarrow> string \<Rightarrow> json \<Rightarrow> climate" where
  "IntuisRoomClimate env home_id room_id room_name =
     \<lparr>c_home_id = py_str env home_id, c_room_id = room_id, c_room_name = room_name,
      c_unique_id = ''intuis_'' @ py_str env home_id @ ''_'' @ room_id @ ''_climate'',
      c_preset_mode = None\<rparr>"




definition preset_mode :: "climate \<Rightarrow> string option" where
  "preset_mode ent = c_preset_mode ent"

text \<open>The loop of \<open>async_setup_entry\<close> of climate.py over the rooms.\<close>

fun climate_rooms :: "pyenv \<Rightarrow> json \<Rightarrow> json list \<Rightarrow> exn + climate list" where
  "climate_rooms env home_id [] = Inr []"
| "climate_rooms env home_id (room # rest) =
     (case room of
        JDict r \<Rightarrow>
          (let room_id = py_str env (py_or (dget r ''id'') (JStr []))
           in if room_id = [] then climate_rooms env home_id rest
              else (let room_name = py_or (dget r ''name'') (JStr (''Room '' @ room_id))
                    in case climate_rooms env home_id rest of
                         Inl e \<Rightarrow> Inl e
                       | Inr es \<Rightarrow> Inr (IntuisRoomClimate env home_id room_id room_name # es)))
      | _ \<Rightarrow> Inl AttributeError)"

text \<open>
  \<open>async_setup_entry\<close> of climate.py, from the coordinator's data after the first refresh
  to the entities handed to \<open>async_add_entities\<close>.
\<close>

definition climate_async_setup_entry :: "pyenv \<Rightarrow> json \<Rightarrow> exn + climate list" where
  "climate_async_setup_entry env data =
     (case (if py_truthy data then data else JDict []) of
        JDict payload \<Rightarrow>
          (let home = py_or (dget payload ''home'') (JDict []);
               home_id = dget payload ''home_id'';
               rooms = (case home of
                          JDict h \<Rightarrow> dget_default h ''rooms'' (JList [])
                        | _ \<Rightarrow> JList [])
           in case py_iter rooms of
                Inl e \<Rightarrow> Inl e
              | Inr rs \<Rightarrow> climate_rooms env home_id rs)
      | _ \<Rightarrow> Inl AttributeError)"

section \<open>sensor.py\<close>

text \<open>The loop \<open>for r in rooms\<close> of \<open>_find_room_in_payload\<close> of sensor.py.\<close>

fun sensor_room_loop :: "pyenv \<Rightarrow> json list \<Rightarrow> string \<Rightarrow> exn + json option" where
  "sensor_room_loop env [] room_id = Inr None"
| "sensor_room_loop env (r # rs) room_id =
     (case r of
        JDict kvs \<Rightarrow>
          if py_str env (py_or (py_or (dget kvs ''id'') (dget kvs ''_id'')) (JStr [])) = room_id
          then Inr (Some r)
          else sensor_room_loop env rs room_id
      | _ \<Rightarrow> Inl AttributeError)"

definition sensor_find_room_in_payload :: "pyenv \<Rightarrow> json \<Rightarrow> string \<Rightarrow> exn + json option" where
  "sensor_find_room_in_payload env payload room_id =
     (case payload of
        JDict p \<Rightarrow>
          (case (case dget p ''body'' of
                   JDict body \<Rightarrow>
                     (case dget body ''home'' of
                        JDict home \<Rightarrow>
                          (case dget home ''rooms'' of
                             JList rooms \<Rightarrow> sensor_room_loop env rooms room_id
                           | _ \<Rightarrow> Inr None)
                      | _ \<Rightarrow> Inr None)
                 | _ \<Rightarrow> Inr None) of
             Inl e \<Rightarrow> Inl e
           | Inr (Some r) \<Rightarrow> Inr (Some r)
           | Inr None \<Rightarrow>
               (case dget p ''rooms'' of
                  JList rooms \<Rightarrow> sensor_room_loop env rooms room_id
                | _ \<Rightarrow> Inr None))
      | _ \<Rightarrow> Inr None)"

text \<open>\<open>_get_room_field\<close>: \<open>None\<close> is \<open>JNull\<close>.\<close>

definition get_room_field :: "pyenv \<Rightarrow> json \<Rightarrow> string \<Rightarrow> string \<Rightarrow> exn + json" where
  "get_room_field env payload room_id field =
     (case sensor_find_room_in_payload env payload room_id of
        Inl e \<Rightarrow> Inl e
      | Inr (Some (JDict room)) \<Rightarrow>
          (let v = dget room field
           in Inr (case v of
                     JInt _ \<Rightarrow> v | JFloat _ \<Rightarrow> v | JStr _ \<Rightarrow> v | JBool _ \<Rightarrow> v | _ \<Rightarrow> JNull))
      | Inr _ \<Rightarrow> Inr JNull)"

text \<open>The loop \<open>for sch in schedules: if sch.get("selected") is True\<close>.\<close>

fun sensor_selected_loop :: "json list \<Rightarrow> exn + json" where
  "sensor_selected_loop [] = Inr JNull"
| "sensor_selected_loop (sch # schs) =
     (case sch of
        JDict kvs \<Rightarrow> if dget kvs ''selected'' = JBool True then Inr sch else sensor_selected_loop schs
      | _ \<Rightarrow> Inl AttributeError)"

text \<open>The loops over \<open>rooms_temp\<close> and over \<open>rooms\<close>: the first numeric value of a matching record.\<close>

fun sensor_match_loop ::
  "pyenv \<Rightarrow> string \<Rightarrow> string \<Rightarrow> json list \<Rightarrow> string \<Rightarrow> exn + real option" where
  "sensor_match_loop env key field [] room_id = Inr None"
| "sensor_match_loop env key field (rt # rts) room_id =
     (case rt of
        JDict kvs \<Rightarrow>
          if py_str env (dget kvs key) = room_id \<and> is_number (dget kvs field)
          then Inr (Some (py_float (dget kvs field)))
          else sensor_match_loop env key field rts room_id
      | _ \<Rightarrow> Inl AttributeError)"

fun sensor_zone_loop :: "pyenv \<Rightarrow> json list \<Rightarrow> string \<Rightarrow> exn + real option" where
  "sensor_zone_loop env [] room_id = Inr None"
| "sensor_zone_loop env (z # zs) room_id =
     (case z of
        JDict zone \<Rightarrow>
          (case (case dget zone ''rooms_temp'' of
                   JList rtemps \<Rightarrow> sensor_match_loop env ''room_id'' ''temp'' rtemps room_id
                 | _ \<Rightarrow> Inr None) of
             Inl e \<Rightarrow> Inl e
           | Inr (Some t) \<Rightarrow> Inr (Some t)
           | Inr None \<Rightarrow> sensor_zone_loop env zs room_id)
      | _ \<Rightarrow> Inl AttributeError)"

text \<open>\<open>_get_room_setpoint_from_configs\<close> of sensor.py.\<close>

definition sensor_get_room_setpoint_from_configs ::
  "pyenv \<Rightarrow> json \<Rightarrow> string \<Rightarrow> exn + real option" where
  "sensor_get_room_setpoint_from_configs env configs room_id =
     (case configs of
        JDict c \<Rightarrow>
          (case dget c ''body'' of
             JDict body \<Rightarrow>
               (case dget body ''home'' of
                  JDict home \<Rightarrow>
                    (case py_or (dget home ''therm_schedules'') (dget home ''schedules'') of
                       JList schedules \<Rightarrow>
                         (case sensor_selected_loop schedules of
                            Inl e \<Rightarrow> Inl e
                          | Inr sel \<Rightarrow>
                              (case (if py_truthy sel then sel
                                     else (case schedules of [] \<Rightarrow> JNull | x # _ \<Rightarrow> x)) of
                                 JDict selected \<Rightarrow>
                                   (case dget selected ''zones'' of
                                      JList zones \<Rightarrow>
                                        (case sensor_zone_loop env zones room_id of
                                           Inl e \<Rightarrow> Inl e
                                         | Inr (Some t) \<Rightarrow> Inr (Some t)
                                         | Inr None \<Rightarrow>
                                             (case dget selected ''rooms'' of
                                                JList rooms \<Rightarrow>
                                                  sensor_match_loop env ''id''
                                                    ''therm_setpoint_temperature'' rooms room_id
                                              | _ \<Rightarrow> Inr None))
                                    | _ \<Rightarrow> Inr None)
                               | _ \<Rightarrow> Inr None))
                     | _ \<Rightarrow> Inr None)
                | _ \<Rightarrow> Inr None)
           | _ \<Rightarrow> Inr None)
      | _ \<Rightarrow> Inr None)"

text \<open>The sensor classes; \<open>_value\<close> is set by \<open>__init__\<close> and returned by \<open>native_value\<close>.\<close>

datatype sensor_class =
    IntuisEnergyHomeSensor
  | IntuisSimpleNumberSensor
  | IntuisSimpleTextSensor
  | IntuisRoomTempSensor
  | IntuisRoomTextSensor

record sensor =
  s_class :: sensor_class
  s_unique_id :: string
  s_name :: string
  s_value :: json


text \<open>
  The constructors of the two per-room sensor classes: \<open>IntuisRoomTempSensor\<close> stores
  \<open>float(value)\<close>, \<open>IntuisRoomTextSensor\<close> stores \<open>str(value)\<close> of a string.
\<close>

definition room_temp_sensor :: "string \<Rightarrow> string \<Rightarrow> json \<Rightarrow> sensor" where
  "room_temp_sensor unique name v =
     \<lparr>s_class = IntuisRoomTempSensor, s_unique_id = unique, s_name = name,
      s_value = JFloat (py_float v)\<rparr>"

definition room_text_sensor :: "string \<Rightarrow> string \<Rightarrow> string \<Rightarrow> sensor" where
  "room_text_sensor unique name m =
     \<lparr>s_class = IntuisRoomTextSensor, s_unique_id = unique, s_name = name, s_value = JStr m\<rparr>"


text \<open>The per-room part of \<open>async_setup_entry\<close> of sensor.py, for one room of the loop.\<close>

definition room_sensors ::
  "pyenv \<Rightarrow> json \<Rightarrow> json \<Rightarrow> json \<Rightarrow> json \<Rightarrow> exn + sensor list" where
  "room_sensors env home_id status configs room =
     (case room of
        JDict r \<Rightarrow>
          (let room_id = py_str env (py_or (py_or (dget r ''id'') (dget r ''_id'')) (JStr []))
           in if room_id = [] then Inr []
              else
                (let room_name = py_str env (py_or (dget r ''name'') (JStr (''Room '' @ room_id)));
                     prefix = ''intuis_'' @ py_str env home_id @ ''_'' @ room_id
                 in case get_room_field env status room_id ''therm_measured_temperature'' of
                      Inl e \<Rightarrow> Inl e
                    | Inr m0 \<Rightarrow>
                 (let measured = (if m0 = JNull then dget r ''therm_measured_temperature'' else m0);
                      e1 = (if is_number measured
                            then [room_temp_sensor (prefix @ ''_measured'')
                                    (room_name @ '' Measured'') measured]
                            else [])
                  in case get_room_field env status room_id ''therm_setpoint_temperature'' of
                       Inl e \<Rightarrow> Inl e
                     | Inr sp0 \<Rightarrow>
                  (case (if sp0 = JNull
                         then (case sensor_get_room_setpoint_from_configs env configs room_id of
                                 Inl e \<Rightarrow> Inl e
                               | Inr None \<Rightarrow> Inr JNull
                               | Inr (Some t) \<Rightarrow> Inr (JFloat t))
                         else Inr sp0) of
                     Inl e \<Rightarrow> Inl e
                   | Inr setpoint \<Rightarrow>
                  (let e2 = (if is_number setpoint
                             then [room_temp_sensor (prefix @ ''_setpoint'')
                                     (room_name @ '' Setpoint'') setpoint]
                             else [])
                   in case get_room_field env status room_id ''therm_setpoint_mode'' of
                        Inl e \<Rightarrow> Inl e
                      | Inr mode \<Rightarrow>
                          Inr (e1 @ e2 @
                               (case mode of
                                  JStr m \<Rightarrow> [room_text_sensor (prefix @ ''_mode'')
                                               (room_name @ '' Mode'') m]
                                | _ \<Rightarrow> [])))))))
      | _ \<Rightarrow> Inl AttributeError)"

fun rooms_sensors ::
  "pyenv \<Rightarrow> json \<Rightarrow> json \<Rightarrow> json \<Rightarrow> json list \<Rightarrow> exn + sensor list" where
  "rooms_sensors env home_id status configs [] = Inr []"
| "rooms_sensors env home_id status configs (room # rest) =
     (case room_sensors env home_id status configs room of
        Inl e \<Rightarrow> Inl e
      | Inr es \<Rightarrow>
          (case rooms_sensors env home_id status configs rest of
             Inl e \<Rightarrow> Inl e
           | Inr es' \<Rightarrow> Inr (es @ es')))"

text \<open>\<open>_extract_energy_day_value\<close>.\<close>

fun energy_key_loop :: "(string \<times> json) list \<Rightarrow> string list \<Rightarrow> real option" where
  "energy_key_loop first [] = None"
| "energy_key_loop first (key # keys) =
     (let v = dget first key
      in if is_number v then Some (py_float v)
         else (case v of
                 JList (x # xs) \<Rightarrow> if is_number x then Some (py_float x) else energy_key_loop first keys
               | _ \<Rightarrow> energy_key_loop first keys))"

definition extract_energy_day_value :: "json \<Rightarrow> exn + real option" where
  "extract_energy_day_value measures_v =
     (case measures_v of
        JDict m \<Rightarrow>
          (let arr = (case map_of m ''measures'' of
                        Some (JList a) \<Rightarrow> a
                      | _ \<Rightarrow>
                          (case map_of m ''body'' of
                             Some (JDict body) \<Rightarrow>
                               (case dget body ''measures'' of JList a \<Rightarrow> a | _ \<Rightarrow> [])
                           | _ \<Rightarrow> []))
           in case arr of
                [] \<Rightarrow> Inr None
              | first # _ \<Rightarrow>
                  (case first of
                     JDict f \<Rightarrow> Inr (energy_key_loop f [''value'', ''energy'', ''kwh'', ''sum'', ''data''])
                   | _ \<Rightarrow> Inl AttributeError))
      | _ \<Rightarrow> Inr None)"

text \<open>\<open>async_setup_entry\<close> of sensor.py, from the coordinator's data to the entities.\<close>

definition sensor_async_setup_entry :: "pyenv \<Rightarrow> json \<Rightarrow> exn + sensor list" where
  "sensor_async_setup_entry env data =
     (case (if py_truthy data then data else JDict []) of
        JDict payload \<Rightarrow>
          (let home = py_or (dget payload ''home'') (JDict []);
               home_id = dget payload ''home_id'';
               status = py_or (dget payload ''status'') (JDict []);
               configs = py_or (dget payload ''configs'') (JDict []);
               measures_v = py_or (dget payload ''measures'') (JDict [])
           in case home of
                JDict h \<Rightarrow>
                  (let rooms = dget_default h ''rooms'' (JList []);
                       modules = dget_default h ''modules'' (JList []);
                       therm_mode = dget h ''therm_mode'';
                       prefix = ''intuis_'' @ py_str env home_id
                   in case extract_energy_day_value measures_v of
                        Inl e \<Rightarrow> Inl e
                      | Inr val \<Rightarrow>
                   (case py_len rooms of
                      Inl e \<Rightarrow> Inl e
                    | Inr n_rooms \<Rightarrow>
                   (case py_len modules of
                      Inl e \<Rightarrow> Inl e
                    | Inr n_modules \<Rightarrow>
                   (case py_iter rooms of
                      Inl e \<Rightarrow> Inl e
                    | Inr rs \<Rightarrow>
                   (case rooms_sensors env home_id status configs rs of
                      Inl e \<Rightarrow> Inl e
                    | Inr per_room \<Rightarrow>
                        Inr ((case val of
                                Some x \<Rightarrow> [\<lparr>s_class = IntuisEnergyHomeSensor,
                                            s_unique_id = prefix @ ''_energy_today'',
                                            s_name = ''Energy Today'', s_value = JFloat x\<rparr>]
                              | None \<Rightarrow> [])
                             @ [\<lparr>s_class = IntuisSimpleNumberSensor,
                                 s_unique_id = prefix @ ''_rooms_count'',
                                 s_name = ''Rooms Count'', s_value = JInt n_rooms\<rparr>,
                                \<lparr>s_class = IntuisSimpleNumberSensor,
                                 s_unique_id = prefix @ ''_modules_count'',
                                 s_name = ''Modules Count'', s_value = JInt n_modules\<rparr>]
                             @ (case therm_mode of
                                  JStr t \<Rightarrow> [\<lparr>s_class = IntuisSimpleTextSensor,
                                              s_unique_id = prefix @ ''_therm_mode'',
                                              s_name = ''Therm Mode'', s_value = JStr t\<rparr>]
                                | _ \<Rightarrow> [])
                             @ per_room))))))
              | _ \<Rightarrow> Inl AttributeError)
      | _ \<Rightarrow> Inl AttributeError)"

section \<open>binary\_sensor.py and select.py\<close>

datatype binary_class = IntuisRoomWindowSensor | IntuisRoomPresenceSensor

record binary_sensor =
  b_class :: binary_class
  b_room :: "(string \<times> json) list"

definition is_on :: "binary_sensor \<Rightarrow> bool" where
  "is_on ent =
     py_truthy (dget (b_room ent)
       (case b_class ent of
          IntuisRoomWindowSensor \<Rightarrow> ''window_open''
        | IntuisRoomPresenceSensor \<Rightarrow> ''presence''))"

fun binary_rooms :: "json list \<Rightarrow> exn + binary_sensor list" where
  "binary_rooms [] = Inr []"
| "binary_rooms (room # rest) =
     (case room of
        JDict r \<Rightarrow>
          (case binary_rooms rest of
             Inl e \<Rightarrow> Inl e
           | Inr es \<Rightarrow>
               Inr ((if dget r ''window_open'' \<noteq> JNull
                     then [\<lparr>b_class = IntuisRoomWindowSensor, b_room = r\<rparr>] else [])
                    @ (if dget r ''presence'' \<noteq> JNull
                       then [\<lparr>b_class = IntuisRoomPresenceSensor, b_room = r\<rparr>] else [])
                    @ es))
      | _ \<Rightarrow> Inl AttributeError)"

text \<open>
  \<open>async_setup_entry\<close> of binary\_sensor.py, given the coordinator's data:
  \<open>rooms = coordinator.data.get("rooms", [])\<close>.
\<close>

definition binary_sensor_async_setup_entry :: "json \<Rightarrow> exn + binary_sensor list" where
  "binary_sensor_async_setup_entry data =
     (case data of
        JDict payload \<Rightarrow>
          (case py_iter (dget_default payload ''rooms'' (JList [])) of
             Inl e \<Rightarrow> Inl e
           | Inr rs \<Rightarrow> binary_rooms rs)
      | _ \<Rightarrow> Inl AttributeError)"

record schedule_select =
  sel_home_id :: json
  sel_schedules :: json
  sel_options :: "json list"
  sel_ids :: "json list"

text \<open>\<open>async_setup_entry\<close> of select.py with \<open>IntuisScheduleSelect.__init__\<close>.\<close>

definition select_async_setup_entry :: "json \<Rightarrow> exn + schedule_select list" where
  "select_async_setup_entry data =
     (case data of
        JDict payload \<Rightarrow>
          (case dget_default payload ''home'' (JDict []) of
             JDict home \<Rightarrow>
               (let schedules = py_or (py_or (dget home ''therm_schedules'') (dget home ''schedules''))
                                  (JList [])
                in case py_iter schedules of
                     Inl e \<Rightarrow> Inl e
                   | Inr items \<Rightarrow>
                       Inr [\<lparr>sel_home_id = dget payload ''home_id'', sel_schedules = schedules,
                             sel_options = concat (map (\<lambda>s. case s of JDict d \<Rightarrow> [dget d ''name'']
                                                                 | _ \<Rightarrow> []) items),
                             sel_ids = concat (map (\<lambda>s. case s of JDict d \<Rightarrow> [dget d ''id'']
                                                             | _ \<Rightarrow> []) items)\<rparr>])
           | _ \<Rightarrow> Inl AttributeError)
      | _ \<Rightarrow> Inl AttributeError)"

section \<open>Observations and example inputs\<close>

text \<open>The \<open>grant_type\<close> of a request to the token endpoint.\<close>

definition grant_of :: "request \<Rightarrow> string option" where
  "grant_of rq =
     (if req_url rq = BASE_HOST @ ''/oauth2/token''
      then (case req_form rq of Some f \<Rightarrow> map_of f ''grant_type'' | None \<Rightarrow> None)
      else None)"

text \<open>
  What \<open>_store_tokens\<close> leaves in the token state from the response object \<open>kvs\<close> read at
  time \<open>now\<close>, when \<open>old\<close> was the refresh token held before.
\<close>

definition stored :: "(string \<times> json) list \<Rightarrow> real \<Rightarrow> json \<Rightarrow> state \<Rightarrow> bool" where
  "stored kvs now old s =
     (access_token s = dget kvs ''access_token''
      \<and> refresh_token s = (case map_of kvs ''refresh_token'' of Some r \<Rightarrow> r | None \<Rightarrow> old)
      \<and> expires_at s =
          Some (now + (if is_number (dget kvs ''expires_in'') then py_float (dget kvs ''expires_in'')
                       else 3600)))"


definition example_env :: pyenv where
  "example_env =
     \<lparr>repr_other = (\<lambda>v. ''<object>''), json_loads = (\<lambda>text. None),
      parse_float = (\<lambda>text. None)\<rparr>"

definition example_cfg :: config where
  "example_cfg =
     \<lparr>client_id = ''cid'', client_secret = ''secret'', scope = ''read_muller write_muller'',
      user_prefix = ''muller'', username = ''user@example.org'', password = ''pw''\<rparr>"

definition ok_response :: "json \<Rightarrow> real \<times> (exn + response)" where
  "ok_response v = (0, Inr \<lparr>resp_status = 200, resp_text = Inr ''...'', resp_json = Inr v\<rparr>)"


text \<open>A body that neither \<open>resp.json()\<close> nor \<open>resp.text()\<close> can decode, with status 200.\<close>

definition undecodable_response :: "real \<times> (exn + response)" where
  "undecodable_response =
     (0, Inr \<lparr>resp_status = 200, resp_text = Inl DecodeError, resp_json = Inl DecodeError\<rparr>)"

definition fresh_state :: "(real \<times> (exn + response)) list \<Rightarrow> state" where
  "fresh_state sc =
     \<lparr>access_token = JNull, refresh_token = JNull, expires_at = None, home_cache = JNull,
      clock = 1000, script = sc, sent = []\<rparr>"




definition full_token :: "(string \<times> json) list" where
  "full_token = [(''access_token'', JStr ''a3''), (''refresh_token'', JStr ''r3'')]"

definition home_payload :: json where
  "home_payload =
     JDict [(''body'', JDict [(''home'',
       JDict [(''id'', JStr ''h1''), (''name'', JStr ''Maison''),
              (''rooms'', JList [JDict [(''id'', JStr ''r1''), (''name'', JStr ''Salon'')]])])])]"

definition status_payload :: json where
  "status_payload =
     JDict [(''body'', JDict [(''home'',
       JDict [(''id'', JStr ''h1''),
              (''rooms'', JList [JDict [(''id'', JStr ''r1''),
                                        (''therm_measured_temperature'', JFloat 20),
                                        (''therm_setpoint_temperature'', JInt 19),
                                        (''therm_setpoint_mode'', JStr ''manual'')]])])])]"

definition measures_payload :: json where
  "measures_payload = JDict [(''body'', JDict [(''measures'', JList [])])]"

definition poll_script :: "(real \<times> (exn + response)) list" where
  "poll_script =
     [ok_response (JDict full_token), ok_response home_payload, ok_response status_payload,
      ok_response measures_payload]"

definition poll_data :: json where
  "poll_data =
     JDict [(''home_id'', JStr ''h1''), (''status'', status_payload),
            (''measures'', measures_payload)]"











section \<open>Properties of the mode mapping\<close>

lemma lower_char_idem: "lower_char (lower_char c) = lower_char c"
  by (simp add: lower_char_def)

lemma py_lower_idem: "py_lower (py_lower s) = py_lower s"
  by (simp add: py_lower_def lower_char_idem)

lemma py_lower_Nil: "py_lower s = [] \<longleftrightarrow> s = []"
  by (simp add: py_lower_def)

text \<open>
  C10. \<open>room_mode_to_hvac_and_preset\<close> is a total function of its two (possibly absent)
  string arguments and its value is fixed by the lower-cased room mode and, for room mode
  \<open>home\<close>, the lower-cased home mode: \<open>off\<close> gives (OFF, no preset), \<open>manual\<close> gives
  (HEAT, no preset), \<open>away\<close> gives (AUTO, away), \<open>hg\<close> gives (HEAT, hg), \<open>home\<close> gives
  (HEAT, hg) under home mode \<open>hg\<close>, (AUTO, away) under home mode \<open>away\<close> and (AUTO, home)
  otherwise; every other room mode, the empty string and \<open>None\<close> included, gives
  (AUTO, no preset). The result is unchanged when both arguments are replaced by their
  lower-cased forms, so matching is case-insensitive.
\<close>

theorem room_mode_to_hvac_and_preset_table:
  fixes room_mode home_mode :: "string option"
  defines "rm \<equiv> py_lower (or_empty room_mode)"
      and "hm \<equiv> py_lower (or_empty home_mode)"
  shows "(rm = ''off'' \<longrightarrow> room_mode_to_hvac_and_preset room_mode home_mode = (OFF, None))
       \<and> (rm = ''manual'' \<longrightarrow> room_mode_to_hvac_and_preset room_mode home_mode = (HEAT, None))
       \<and> (rm = ''away'' \<longrightarrow>
            room_mode_to_hvac_and_preset room_mode home_mode = (AUTO, Some ''away''))
       \<and> (rm = ''hg'' \<longrightarrow> room_mode_to_hvac_and_preset room_mode home_mode = (HEAT, Some ''hg''))
       \<and> (rm = ''home'' \<and> hm = ''hg'' \<longrightarrow>
            room_mode_to_hvac_and_preset room_mode home_mode = (HEAT, Some ''hg''))
       \<and> (rm = ''home'' \<and> hm = ''away'' \<longrightarrow>
            room_mode_to_hvac_and_preset room_mode home_mode = (AUTO, Some ''away''))
       \<and> (rm = ''home'' \<and> hm \<noteq> ''hg'' \<and> hm \<noteq> ''away'' \<longrightarrow>
            room_mode_to_hvac_and_preset room_mode home_mode = (AUTO, Some ''home''))
       \<and> (rm \<notin> {''off'', ''manual'', ''away'', ''hg'', ''home''} \<longrightarrow>
            room_mode_to_hvac_and_preset room_mode home_mode = (AUTO, None))
       \<and> room_mode_to_hvac_and_preset None home_mode = (AUTO, None)
       \<and> room_mode_to_hvac_and_preset (Some []) home_mode = (AUTO, None)
       \<and> room_mode_to_hvac_and_preset room_mode home_mode =
           room_mode_to_hvac_and_preset (Some rm) (Some hm)"
proof -
  have e: "or_empty (Some x) = x" for x :: string
    by (simp add: or_empty_def)
  have n: "or_empty None = []"
    by (simp add: or_empty_def)
  have l: "py_lower [] = []"
    by (simp add: py_lower_def)
  have h: "(if or_empty home_mode \<noteq> [] then Some hm else None) = Some ''hg'' \<longleftrightarrow> hm = ''hg''"
          "(if or_empty home_mode \<noteq> [] then Some hm else None) = Some ''away'' \<longleftrightarrow> hm = ''away''"
    using py_lower_Nil [of "or_empty home_mode"] by (auto simp: hm_def)
  have h': "(if hm \<noteq> [] then Some hm else None) = Some ''hg'' \<longleftrightarrow> hm = ''hg''"
           "(if hm \<noteq> [] then Some hm else None) = Some ''away'' \<longleftrightarrow> hm = ''away''"
    by auto
  have unf: "room_mode_to_hvac_and_preset room_mode home_mode =
      (if rm = ''off'' then (OFF, None)
       else if rm = ''manual'' then (HEAT, None)
       else if rm = ''away'' then (AUTO, Some ''away'')
       else if rm = ''hg'' then (HEAT, Some ''hg'')
       else if rm = ''home'' then
         (if hm = ''hg'' then (HEAT, Some ''hg'')
          else if hm = ''away'' then (AUTO, Some ''away'')
          else (AUTO, Some ''home''))
       else (AUTO, None))"
    unfolding room_mode_to_hvac_and_preset_def Let_def PRESET_AWAY_def PRESET_HG_def
      PRESET_HOME_def rm_def [symmetric] hm_def [symmetric] h
    by (rule refl)
  have low: "room_mode_to_hvac_and_preset (Some rm) (Some hm) =
      (if rm = ''off'' then (OFF, None)
       else if rm = ''manual'' then (HEAT, None)
       else if rm = ''away'' then (AUTO, Some ''away'')
       else if rm = ''hg'' then (HEAT, Some ''hg'')
       else if rm = ''home'' then
         (if hm = ''hg'' then (HEAT, Some ''hg'')
          else if hm = ''away'' then (AUTO, Some ''away'')
          else (AUTO, Some ''home''))
       else (AUTO, None))"
    unfolding room_mode_to_hvac_and_preset_def Let_def PRESET_AWAY_def PRESET_HG_def
      PRESET_HOME_def e
    unfolding rm_def hm_def py_lower_idem
    unfolding rm_def [symmetric] hm_def [symmetric] h'
    by (rule refl)
  have none: "room_mode_to_hvac_and_preset None home_mode = (AUTO, None)"
    by (simp add: room_mode_to_hvac_and_preset_def n l)
  have empty: "room_mode_to_hvac_and_preset (Some []) home_mode = (AUTO, None)"
    by (simp add: room_mode_to_hvac_and_preset_def e l)
  show ?thesis
    unfolding none empty low unfolding unf by simp
qed

theorem room_mode_to_hvac_and_preset_table_witness:
  "room_mode_to_hvac_and_preset (Some ''OFF'') None = (OFF, None)
   \<and> room_mode_to_hvac_and_preset (Some ''Manual'') (Some ''away'') = (HEAT, None)
   \<and> room_mode_to_hvac_and_preset (Some ''aWay'') None = (AUTO, Some ''away'')
   \<and> room_mode_to_hvac_and_preset (Some ''HG'') (Some ''home'') = (HEAT, Some ''hg'')
   \<and> room_mode_to_hvac_and_preset (Some ''Home'') (Some ''HG'') = (HEAT, Some ''hg'')
   \<and> room_mode_to_hvac_and_preset (Some ''home'') (Some ''Away'') = (AUTO, Some ''away'')
   \<and> room_mode_to_hvac_and_preset (Some ''HOME'') None = (AUTO, Some ''home'')
   \<and> room_mode_to_hvac_and_preset (Some ''schedule'') (Some ''hg'') = (AUTO, None)"
proof -
  have ev: "py_lower (or_empty (Some ''OFF'')) = ''off''"
    "py_lower (or_empty (Some ''Manual'')) = ''manual''"
    "py_lower (or_empty (Some ''aWay'')) = ''away''"
    "py_lower (or_empty (Some ''HG'')) = ''hg''"
    "py_lower (or_empty (Some ''Home'')) = ''home''"
    "py_lower (or_empty (Some ''home'')) = ''home''"
    "py_lower (or_empty (Some ''HOME'')) = ''home''"
    "py_lower (or_empty (Some ''schedule'')) = ''schedule''"
    "py_lower (or_empty (Some ''Away'')) = ''away''"
    "py_lower (or_empty None) = []"
    by (simp_all add: py_lower_def lower_char_def or_empty_def)
  show ?thesis
    using room_mode_to_hvac_and_preset_table [of "Some ''OFF''" None]
      room_mode_to_hvac_and_preset_table [of "Some ''Manual''" "Some ''away''"]
      room_mode_to_hvac_and_preset_table [of "Some ''aWay''" None]
      room_mode_to_hvac_and_preset_table [of "Some ''HG''" "Some ''home''"]
      room_mode_to_hvac_and_preset_table [of "Some ''Home''" "Some ''HG''"]
      room_mode_to_hvac_and_preset_table [of "Some ''home''" "Some ''Away''"]
      room_mode_to_hvac_and_preset_table [of "Some ''HOME''" None]
      room_mode_to_hvac_and_preset_table [of "Some ''schedule''" "Some ''hg''"]
    unfolding ev by simp
qed

lemma request_json_cases:
  "request_json env method url body form content_type auth s =
     (let rq = build_request env method url body form content_type auth s
      in case script s of
           [] \<Rightarrow> (Inl ClientError, s\<lparr>sent := sent s @ [rq]\<rparr>)
         | out # rest \<Rightarrow>
             (let s1 = s\<lparr>clock := clock s + fst out, script := rest, sent := sent s @ [rq]\<rparr>
              in case snd out of
                   Inl e \<Rightarrow> (Inl e, s1)
                 | Inr resp \<Rightarrow>
                     if resp_status resp \<ge> 400 then (Inl IntuisApiError, s1)
                     else (case resp_json resp of
                             Inr v \<Rightarrow> (Inr v, s1)
                           | Inl e \<Rightarrow>
                               (case resp_text resp of
                                  Inr text \<Rightarrow> (Inl IntuisApiError, s1)
                                | Inl e' \<Rightarrow> (Inl e', s1)))))"
  by (simp add: request_json_def session_request_def Let_def split: list.splits sum.splits)

text \<open>
  C8. At a response with status 200 whose body cannot be decoded, so that both
  \<open>resp.json()\<close> and \<open>resp.text()\<close> raise, \<open>_request_json\<close> lets the exception of
  \<open>resp.text()\<close> escape: what it raises is not \<open>IntuisApiError\<close>.
\<close>

theorem request_json_undecodable_body:
  "fst (request_json example_env ''GET'' (BASE_HOST @ ''/api/homesdata'') None None None True
          (fresh_state [undecodable_response])) = Inl DecodeError"
  by (simp add: request_json_cases fresh_state_def undecodable_response_def Let_def)


lemma request_json_http_error:
  assumes "script s = (dt, Inr resp) # rest" "resp_status resp \<ge> 400"
  shows "request_json env method url body form content_type auth s =
           (Inl IntuisApiError, s\<lparr>clock := clock s + dt, script := rest,
                     sent := sent s @ [build_request env method url body form content_type auth s]\<rparr>)"
  using assms by (simp add: request_json_cases Let_def)

lemma grant_of_build_request:
  "grant_of (build_request env ''POST'' (BASE_HOST @ ''/oauth2/token'') None (Some form) ct False s)
     = map_of (form_fields env form) ''grant_type''"
  by (simp add: grant_of_def build_request_def Let_def)


lemma grant_refresh_payload:
  "py_truthy (refresh_token s) \<Longrightarrow>
     map_of (form_fields env (refresh_payload cfg s)) ''grant_type'' = Some ''refresh_token''"
  by (auto simp: form_fields_def refresh_payload_def py_str_def py_truthy_def)

lemma store_tokens_dict:
  "store_tokens (JDict kvs) s =
     (Inr (), s\<lparr>access_token := dget kvs ''access_token'',
               refresh_token := dget_default kvs ''refresh_token'' (refresh_token s),
               expires_at := Some (if is_number (dget kvs ''expires_in'')
                                   then clock s + py_float (dget kvs ''expires_in'')
                                   else clock s + 3600)\<rparr>)"
  by (simp add: store_tokens_def Let_def)

lemma stored_store_tokens:
  "store_tokens (JDict kvs) s = (Inr (), s') \<Longrightarrow> stored kvs (clock s) (refresh_token s) s'"
  by (auto simp: store_tokens_dict stored_def dget_default_def)



lemma refresh_http_error:
  assumes "py_truthy (refresh_token s)"
    "script s = (dt, Inr resp) # rest" "resp_status resp \<ge> 400"
  shows "\<exists>s1. refresh env cfg s = (Inl IntuisApiError, s1)
           \<and> map grant_of (sent s1) = map grant_of (sent s) @ [Some ''refresh_token'']
           \<and> script s1 = rest"
  unfolding refresh_def using assms(1)
  by (simp add: request_json_http_error [OF assms(2-3)] grant_of_build_request grant_refresh_payload)









section \<open>The coordinator's data and the entities\<close>

text \<open>
  C2. A successful poll of a home with one room: the dict returned by
  \<open>_async_update_data\<close> has the keys \<open>home_id\<close>, \<open>status\<close> and \<open>measures\<close>; the home
  record, which the poll fetched and which sits in the API's cache, is not in it.
\<close>

theorem poll_result_lacks_home_record:
  "fst (async_update_data example_env example_cfg (fresh_state poll_script))
     = Inr (JDict [(''home_id'', JStr ''h1''), (''status'', status_payload),
                   (''measures'', measures_payload)])
   \<and> home_cache (snd (async_update_data example_env example_cfg (fresh_state poll_script)))
     = JDict [(''id'', JStr ''h1''), (''name'', JStr ''Maison''),
              (''rooms'', JList [JDict [(''id'', JStr ''r1''), (''name'', JStr ''Salon'')]])]"
  by code_simp

text \<open>
  C3. On the data of that poll the platform setup functions create no entity for the
  room of the home: climate creates none, sensor creates the two gateway counters only
  (with a room count of 0), binary\_sensor creates none.
\<close>

theorem setup_creates_no_room_entities:
  "fst (async_update_data example_env example_cfg (fresh_state poll_script)) = Inr poll_data
   \<and> climate_async_setup_entry example_env poll_data = Inr []
   \<and> sensor_async_setup_entry example_env poll_data
       = Inr [\<lparr>s_class = IntuisSimpleNumberSensor, s_unique_id = ''intuis_h1_rooms_count'',
               s_name = ''Rooms Count'', s_value = JInt 0\<rparr>,
              \<lparr>s_class = IntuisSimpleNumberSensor, s_unique_id = ''intuis_h1_modules_count'',
               s_name = ''Modules Count'', s_value = JInt 0\<rparr>]
   \<and> binary_sensor_async_setup_entry poll_data = Inr []"
  by code_simp


lemma py_truthy_JDict [simp]: "py_truthy (JDict kvs) \<longleftrightarrow> kvs \<noteq> []"
  by (simp add: py_truthy_def)

lemma py_truthy_JStr [simp]: "py_truthy (JStr s) \<longleftrightarrow> s \<noteq> []"
  by (simp add: py_truthy_def)

lemma py_str_JStr [simp]: "py_str env (JStr s) = s"
  by (simp add: py_str_def)
















end
